theory Spec2Isabelle
  imports Complex_Main "HOL-Library.Log_Nat" "HOL-Library.Signed_Division"
begin

section \<open>C arithmetic used by the progressbar widget\<close>

text \<open>
  The widget stores bar bounds and values in C \<^verbatim>\<open>float\<close> fields and mixes them with
  \<^verbatim>\<open>int\<close> pixel sizes and \<^verbatim>\<open>double\<close> literals. A finite floating-point value is
  modelled by the real number it denotes, and every operation rounds its exact result to
  the format of its C type: round to nearest, ties to even, with \<open>p\<close> significant bits and
  gradual underflow below \<open>2 powi emin\<close>. \<open>f32\<close> is IEEE binary32, \<open>f64\<close> is binary64, the
  expression evaluation a compiler with \<^verbatim>\<open>FLT_EVAL_METHOD == 0\<close> performs.

  The exponent range is not bounded above and there are no infinities or NaN: the model
  agrees with the program as long as no operation overflows the format. A division by a
  zero float, whose result the program converts to \<^verbatim>\<open>int\<close> (undefined behaviour), is the
  failure \<open>None\<close>. C \<^verbatim>\<open>int\<close> values are mathematical integers (signed overflow is undefined
  in C), integer division truncates (\<open>sdiv\<close>).
\<close>

definition rne :: "real \<Rightarrow> int" where
  \<comment> \<open>nearest integer, a tie goes to the even neighbour\<close>
  "rne t = (let f = \<lfloor>t\<rfloor>; d = t - of_int f in
     if d < 1/2 then f else if 1/2 < d then f + 1 else if even f then f else f + 1)"

definition expo :: "real \<Rightarrow> int" where
  \<comment> \<open>binary exponent of a positive number: \<open>2 powi expo a \<le> a < 2 powi (expo a + 1)\<close>\<close>
  "expo a = (if 1 \<le> a then bitlen \<lfloor>a\<rfloor> - 1 else - bitlen (\<lceil>1 / a\<rceil> - 1))"

definition ulp :: "nat \<Rightarrow> int \<Rightarrow> real \<Rightarrow> real" where
  \<comment> \<open>spacing of the format's numbers around a positive number\<close>
  "ulp p emin a = 2 powi (max (expo a) emin - int p + 1)"

definition fround :: "nat \<Rightarrow> int \<Rightarrow> real \<Rightarrow> real" where
  "fround p emin x = (if x = 0 then 0 else
     sgn x * (ulp p emin \<bar>x\<bar> * of_int (rne (\<bar>x\<bar> / ulp p emin \<bar>x\<bar>))))"

definition f32 :: "real \<Rightarrow> real" where
  "f32 = fround 24 (-126)"

definition f64 :: "real \<Rightarrow> real" where
  "f64 = fround 53 (-1022)"

definition fdiv32 :: "real \<Rightarrow> real \<Rightarrow> real option" where
  \<comment> \<open>float division; a zero divisor yields an infinity or NaN, outside the model\<close>
  "fdiv32 a b = (if b = 0 then None else Some (f32 (a / b)))"

definition c_trunc :: "real \<Rightarrow> int" where
  \<comment> \<open>the conversion \<^verbatim>\<open>(int) x\<close>: the fractional part is discarded\<close>
  "c_trunc r = (if 0 \<le> r then \<lfloor>r\<rfloor> else \<lceil>r\<rceil>)"

definition c_MIN :: "real \<Rightarrow> real \<Rightarrow> real" where
  \<comment> \<open>Modelled from the spec: the macro \<^verbatim>\<open>MIN\<close> of the missing header common/util.h,
      \<^verbatim>\<open>((a) < (b) ? (a) : (b))\<close>; the spec calls the pair a clamp.\<close>
  "c_MIN a b = (if a < b then a else b)"

definition c_MAX :: "real \<Rightarrow> real \<Rightarrow> real" where
  \<comment> \<open>Modelled from the spec: the macro \<^verbatim>\<open>MAX\<close> of the missing header common/util.h,
      \<^verbatim>\<open>((a) < (b) ? (b) : (a))\<close>.\<close>
  "c_MAX a b = (if a < b then b else a)"

definition eps :: real where
  \<comment> \<open>the \<^verbatim>\<open>double\<close> literal \<^verbatim>\<open>0.0001\<close>\<close>
  "eps = f64 (1 / 10000)"

text \<open>The reals a \<^verbatim>\<open>float\<close> field can hold: those that rounding to binary32 leaves alone.\<close>

definition is_float :: "real \<Rightarrow> bool" where
  "is_float r \<longleftrightarrow> f32 r = r"

section \<open>Data model\<close>

text \<open>
  \<^verbatim>\<open>xcolor_t\<close> is declared outside this file and is never inspected here: it is the type
  parameter \<open>'c\<close>. The pointers \<^verbatim>\<open>pfg_center\<close> and \<^verbatim>\<open>pfg_end\<close> are options, \<open>None\<close> for
  \<^verbatim>\<open>NULL\<close>. The singly linked list of bars is a list in list order.
\<close>

record 'c bar_t =
  title :: string
  min_value :: real
  max_value :: real
  bvalue :: real  \<comment> \<open>the field \<^verbatim>\<open>value\<close>\<close>
  reverse :: bool
  fg :: 'c
  fg_off :: 'c
  pfg_center :: "'c option"
  pfg_end :: "'c option"
  bg :: 'c
  bordercolor :: 'c

record 'c progressbar_data_t =
  width :: int
  gap :: int
  border_width :: int
  border_padding :: int
  ticks_gap :: int
  ticks_count :: int
  vertical :: bool
  height :: real
  bars :: "'c bar_t list"

record area_t =
  area_x :: int
  area_y :: int
  area_width :: int
  area_height :: int

record draw_context_t =
  ctx_width :: int
  ctx_height :: int

text \<open>
  What the file takes from the rest of the program: the default colours
  \<^verbatim>\<open>globalconf.colors\<close>, the colour resolver \<^verbatim>\<open>xcolor_new\<close> (given the colour string and
  the present content of the target, it returns its success flag and the target's new
  content) and the content of a freshly allocated, zero-filled \<^verbatim>\<open>xcolor_t\<close>.
\<close>

record 'c globalconf_t =
  colors_fg :: 'c
  colors_bg :: 'c
  xcolor_new :: "string \<Rightarrow> 'c \<Rightarrow> bool \<times> 'c"
  xcolor_zero :: 'c

text \<open>The calls the widget makes on the drawing context, in the order it makes them.\<close>

datatype 'c draw_cmd =
  Draw_rectangle area_t real bool 'c
    \<comment> \<open>geometry, line width, filled, colour\<close>
| Draw_rectangle_gradient area_t real bool area_t 'c "'c option" "'c option"
    \<comment> \<open>geometry, line width, filled, pattern rectangle, fg, fg_center, fg_end\<close>

text \<open>
  The property table a Lua caller passes to \<^verbatim>\<open>bar_properties_set\<close>; numbers are doubles.
  The accessors \<^verbatim>\<open>luaA_getopt_string\<close>, \<^verbatim>\<open>luaA_getopt_number\<close> and
  \<^verbatim>\<open>luaA_getopt_boolean\<close> are not in this file: as the spec has it, a key that is absent
  (\<open>None\<close>) leaves the property as it was.
\<close>

record bar_props =
  p_fg :: "string option"
  p_bg :: "string option"
  p_fg_off :: "string option"
  p_border_color :: "string option"
  p_fg_center :: "string option"
  p_fg_end :: "string option"
  p_min_value :: "real option"
  p_max_value :: "real option"
  p_reverse :: "bool option"

section \<open>The bar registry\<close>

definition progressbar_pcolor_set :: "'c globalconf_t \<Rightarrow> 'c option \<Rightarrow> string \<Rightarrow> 'c option" where
  "progressbar_pcolor_set g ppcolor new_color =
     (let flag = (ppcolor = None);
          slot = (case ppcolor of None \<Rightarrow> xcolor_zero g | Some c \<Rightarrow> c);
          (ok, slot') = xcolor_new g new_color slot
      in if \<not> ok \<and> flag then None else Some slot')"

definition new_bar :: "'c globalconf_t \<Rightarrow> string \<Rightarrow> 'c bar_t" where
  \<comment> \<open>Modelled from the spec: the allocation macro \<^verbatim>\<open>p_new\<close> is not in this file; it
      zero-fills, which gives the fields that \<^verbatim>\<open>progressbar_bar_add\<close> does not assign the
      spec's creation defaults (\<open>min_value\<close> 0, \<open>value\<close> 0, \<open>reverse\<close> false, no gradient
      colours). The other fields are assigned on lines 122 to 127.\<close>
  "new_bar g t =
     \<lparr>title = t, min_value = 0, max_value = f32 100, bvalue = 0, reverse = False,
      fg = colors_fg g, fg_off = colors_bg g, pfg_center = None, pfg_end = None,
      bg = colors_bg g, bordercolor = colors_fg g\<rparr>"

definition progressbar_bar_add ::
  "'c globalconf_t \<Rightarrow> 'c progressbar_data_t \<Rightarrow> string \<Rightarrow> 'c progressbar_data_t" where
  \<comment> \<open>Modelled from the spec: \<^verbatim>\<open>bar_list_append\<close> comes from the macro \<^verbatim>\<open>DO_SLIST\<close>, which is
      not in this file; the spec has the new bar appended, insertion order being draw order.\<close>
  "progressbar_bar_add g d t = d\<lparr>bars := bars d @ [new_bar g t]\<rparr>"

fun bar_find :: "string \<Rightarrow> 'c bar_t list \<Rightarrow> 'c bar_t option" where
  \<comment> \<open>the search loop \<^verbatim>\<open>for(bar = d->bars; bar; bar = bar->next)\<close>, which stops at the first
      bar with the title (\<^verbatim>\<open>a_strcmp\<close>, not in this file, is 0 on equal strings); \<open>None\<close>
      when it ends with \<^verbatim>\<open>bar == NULL\<close>\<close>
  "bar_find t [] = None"
| "bar_find t (b # bs) = (if title b = t then Some b else bar_find t bs)"

fun bar_list_update :: "('c bar_t \<Rightarrow> 'c bar_t) \<Rightarrow> string \<Rightarrow> 'c bar_t list \<Rightarrow> 'c bar_t list" where
  \<comment> \<open>the assignments through the pointer \<^verbatim>\<open>bar\<close>: the first bar with the title changes\<close>
  "bar_list_update f t [] = []"
| "bar_list_update f t (b # bs) =
     (if title b = t then f b # bs else b # bar_list_update f t bs)"

definition bar_upsert ::
  "'c globalconf_t \<Rightarrow> ('c bar_t \<Rightarrow> 'c bar_t) \<Rightarrow> 'c progressbar_data_t \<Rightarrow> string
     \<Rightarrow> 'c progressbar_data_t" where
  \<comment> \<open>find the bar, or create and append it; then update it in place\<close>
  "bar_upsert g f d t =
     (let d1 = (case bar_find t (bars d) of
                  None \<Rightarrow> progressbar_bar_add g d t
                | Some _ \<Rightarrow> d)
      in d1\<lparr>bars := bar_list_update f t (bars d1)\<rparr>)"

definition bar_range_set :: "real option \<Rightarrow> real option \<Rightarrow> 'c bar_t \<Rightarrow> 'c bar_t" where
  \<comment> \<open>lines 491 to 504 of \<^verbatim>\<open>luaA_progressbar_bar_properties_set\<close>\<close>
  "bar_range_set new_min new_max bar =
     (let b1 = bar\<lparr>min_value := f32 (case new_min of Some m \<Rightarrow> m | None \<Rightarrow> min_value bar)\<rparr>;
          b2 = (if max_value b1 \<le> min_value b1
                then b1\<lparr>max_value := f32 (f64 (max_value b1 + eps))\<rparr> else b1);
          b3 = (if bvalue b2 < min_value b2 then b2\<lparr>bvalue := min_value b2\<rparr> else b2);
          b4 = b3\<lparr>max_value := f32 (case new_max of Some m \<Rightarrow> m | None \<Rightarrow> max_value b3)\<rparr>;
          b5 = (if min_value b4 \<ge> max_value b4
                then b4\<lparr>min_value := f32 (f64 (max_value b4 - eps))\<rparr> else b4);
          b6 = (if bvalue b5 > max_value b5 then b5\<lparr>bvalue := max_value b5\<rparr> else b5)
      in b6)"

definition bar_properties_apply :: "'c globalconf_t \<Rightarrow> bar_props \<Rightarrow> 'c bar_t \<Rightarrow> 'c bar_t" where
  "bar_properties_apply g props bar =
     (let b1 = (case p_fg props of None \<Rightarrow> bar
                | Some buf \<Rightarrow> bar\<lparr>fg := snd (xcolor_new g buf (fg bar))\<rparr>);
          b2 = (case p_bg props of None \<Rightarrow> b1
                | Some buf \<Rightarrow> b1\<lparr>bg := snd (xcolor_new g buf (bg b1))\<rparr>);
          b3 = (case p_fg_off props of None \<Rightarrow> b2
                | Some buf \<Rightarrow> b2\<lparr>fg_off := snd (xcolor_new g buf (fg_off b2))\<rparr>);
          b4 = (case p_border_color props of None \<Rightarrow> b3
                | Some buf \<Rightarrow> b3\<lparr>bordercolor := snd (xcolor_new g buf (bordercolor b3))\<rparr>);
          b5 = (case p_fg_center props of None \<Rightarrow> b4
                | Some buf \<Rightarrow> b4\<lparr>pfg_center := progressbar_pcolor_set g (pfg_center b4) buf\<rparr>);
          b6 = (case p_fg_end props of None \<Rightarrow> b5
                | Some buf \<Rightarrow> b5\<lparr>pfg_end := progressbar_pcolor_set g (pfg_end b5) buf\<rparr>);
          b7 = bar_range_set (p_min_value props) (p_max_value props) b6
      in b7\<lparr>reverse := (case p_reverse props of None \<Rightarrow> reverse b7 | Some r \<Rightarrow> r)\<rparr>)"

definition luaA_progressbar_bar_properties_set ::
  "'c globalconf_t \<Rightarrow> 'c progressbar_data_t \<Rightarrow> string \<Rightarrow> bar_props \<Rightarrow> 'c progressbar_data_t" where
  "luaA_progressbar_bar_properties_set g d t props = bar_upsert g (bar_properties_apply g props) d t"

definition bar_value_set :: "real \<Rightarrow> 'c bar_t \<Rightarrow> 'c bar_t" where
  \<comment> \<open>line 538: the clamp is computed in double and stored in the float field\<close>
  "bar_value_set v bar = bar\<lparr>bvalue := f32 (c_MAX (min_value bar) (c_MIN (max_value bar) v))\<rparr>"

definition luaA_progressbar_bar_data_add ::
  "'c globalconf_t \<Rightarrow> 'c progressbar_data_t \<Rightarrow> string \<Rightarrow> real \<Rightarrow> 'c progressbar_data_t" where
  "luaA_progressbar_bar_data_add g d t v = bar_upsert g (bar_value_set v) d t"

definition progressbar_new :: "'c progressbar_data_t" where
  \<comment> \<open>the widget data \<^verbatim>\<open>progressbar_new\<close> sets up: lines 601 to 606 on zero-filled memory\<close>
  "progressbar_new =
     \<lparr>width = 80, gap = 2, border_width = 1, border_padding = 0, ticks_gap = 1,
      ticks_count = 0, vertical = False, height = f32 (f64 (8 / 10)), bars = []\<rparr>"

section \<open>Layout and drawing\<close>

definition ticks_on :: "'c progressbar_data_t \<Rightarrow> bool" where
  \<comment> \<open>the test \<^verbatim>\<open>d->ticks_count && d->ticks_gap\<close>\<close>
  "ticks_on d \<longleftrightarrow> ticks_count d \<noteq> 0 \<and> ticks_gap d \<noteq> 0"

definition frame :: "'c progressbar_data_t \<Rightarrow> int" where
  \<comment> \<open>\<^verbatim>\<open>d->border_width + d->border_padding\<close>\<close>
  "frame d = border_width d + border_padding d"

definition layout_widths :: "'c progressbar_data_t \<Rightarrow> int \<Rightarrow> int \<times> int \<times> int" where
  \<comment> \<open>lines 165 to 182: \<open>(unit, pb_width, w->area.width)\<close> for \<open>nbbars\<close> bars\<close>
  "layout_widths d nbbars =
     (if vertical d then
        (let pb_width = (width d - 2 * frame d * nbbars - gap d * (nbbars - 1)) sdiv nbbars
         in (0, pb_width, nbbars * (pb_width + 2 * frame d + gap d) - gap d))
      else
        (let pb_width0 = width d - 2 * frame d;
             unit = (if ticks_on d then (pb_width0 + ticks_gap d) sdiv ticks_count d else 0);
             pb_width = (if ticks_on d then unit * ticks_count d - ticks_gap d else pb_width0)
         in (unit, pb_width, pb_width + 2 * frame d)))"

definition pb_y_of :: "'c progressbar_data_t \<Rightarrow> draw_context_t \<Rightarrow> int \<Rightarrow> int" where
  \<comment> \<open>lines 217 and 320: the top of the fill area\<close>
  "pb_y_of d ctx ay =
     ay + (c_trunc (f32 (f32 (of_int (ctx_height ctx)) * f32 (1 - height d))) sdiv 2) + frame d"

definition layout_vertical :: "'c progressbar_data_t \<Rightarrow> draw_context_t \<Rightarrow> int \<times> int" where
  \<comment> \<open>lines 208 to 215: \<open>(unit, pb_height)\<close> of a vertical widget\<close>
  "layout_vertical d ctx =
     (let pb_height0 =
            c_trunc (f64 (f32 (f32 (of_int (ctx_height ctx)) * height d) + 1 / 2)) - 2 * frame d;
          unit = (if ticks_on d then (pb_height0 + ticks_gap d) sdiv ticks_count d else 0);
          pb_height = (if ticks_on d then unit * ticks_count d - ticks_gap d else pb_height0)
      in (unit, pb_height))"

definition pb_height_horizontal ::
  "'c progressbar_data_t \<Rightarrow> draw_context_t \<Rightarrow> int \<Rightarrow> int option" where
  \<comment> \<open>lines 317 to 319: the thickness of each bar of a horizontal widget\<close>
  "pb_height_horizontal d ctx nbbars =
     (let t1 = f32 (f32 (of_int (ctx_height ctx)) * height d);
          t2 = f32 (t1 - f32 (of_int (nbbars * 2 * frame d)));
          t3 = f32 (t2 - f32 (of_int (gap d * (nbbars - 1))))
      in map_option (\<lambda>q. c_trunc (f64 (q + 1 / 2))) (fdiv32 t3 (f32 (of_int nbbars))))"

definition bar_progress :: "'c progressbar_data_t \<Rightarrow> int \<Rightarrow> int \<Rightarrow> 'c bar_t \<Rightarrow> int option" where
  \<comment> \<open>lines 222 to 237 and 325 to 337: \<^verbatim>\<open>pb_progress\<close> before mirroring, for a bar whose
      secondary length is \<open>len\<close> (\<^verbatim>\<open>pb_height\<close> when vertical, \<^verbatim>\<open>pb_width\<close> otherwise)\<close>
  "bar_progress d len unit bar =
     (if ticks_on d then
        (case fdiv32 (f32 (f32 (of_int (ticks_count d)) * f32 (bvalue bar - min_value bar)))
                     (f32 (max_value bar - min_value bar)) of
           None \<Rightarrow> None
         | Some q \<Rightarrow>
             (let values_ticks = c_trunc (f64 (q + 1 / 2))
              in Some (if values_ticks \<noteq> 0 then values_ticks * unit - ticks_gap d else 0)))
      else
        (case fdiv32 (f32 (f32 (of_int len) * f32 (bvalue bar - min_value bar)))
                     (f32 (max_value bar - min_value bar)) of
           None \<Rightarrow> None
         | Some q \<Rightarrow> Some (c_trunc (f64 (q + 1 / 2)))))"

definition border_cmds :: "'c progressbar_data_t \<Rightarrow> 'c bar_t \<Rightarrow> area_t \<Rightarrow> 'c draw_cmd list" where
  \<comment> \<open>lines 239 to 250 and 339 to 350\<close>
  "border_cmds d bar rectangle =
     (if border_width d \<noteq> 0 then
        (if border_padding d \<noteq> 0 then [Draw_rectangle rectangle 1 True (bg bar)] else [])
        @ [Draw_rectangle rectangle (f32 (of_int (border_width d))) False (bordercolor bar)]
      else [])"

definition mirror :: "'c bar_t \<Rightarrow> int \<Rightarrow> int \<Rightarrow> int" where
  \<comment> \<open>lines 260 and 360: \<^verbatim>\<open>pb_progress\<close> after the reverse test\<close>
  "mirror bar len pb_progress = (if reverse bar then len - pb_progress else pb_progress)"

definition fill_cmds_vertical ::
  "int \<Rightarrow> int \<Rightarrow> int \<Rightarrow> int \<Rightarrow> int \<Rightarrow> 'c bar_t \<Rightarrow> int \<Rightarrow> 'c draw_cmd list" where
  \<comment> \<open>lines 252 to 300; the last argument is \<^verbatim>\<open>pb_progress\<close> before mirroring\<close>
  "fill_cmds_vertical pb_x pb_y pb_width pb_height pb_offset bar pb_progress0 =
     (let pb_progress = mirror bar pb_height pb_progress0;
          pattern_rect =
            (if reverse bar
             then \<lparr>area_x = pb_x, area_y = pb_y, area_width = 0, area_height = pb_height\<rparr>
             else \<lparr>area_x = pb_x, area_y = pb_y + pb_height, area_width = 0,
                   area_height = - pb_height\<rparr>);
          bottom = \<lparr>area_x = pb_x + pb_offset, area_y = pb_y + pb_height - pb_progress,
                    area_width = pb_width, area_height = pb_progress\<rparr>;
          top = \<lparr>area_x = pb_x + pb_offset, area_y = pb_y,
                 area_width = pb_width, area_height = pb_height - pb_progress\<rparr>
      in (if pb_progress > 0 then
            [if reverse bar then Draw_rectangle bottom 1 True (fg_off bar)
             else Draw_rectangle_gradient bottom 1 True pattern_rect
                    (fg bar) (pfg_center bar) (pfg_end bar)]
          else [])
         @ (if pb_height - pb_progress > 0 then
              [if reverse bar then Draw_rectangle_gradient top 1 True pattern_rect
                                     (fg bar) (pfg_center bar) (pfg_end bar)
               else Draw_rectangle top 1 True (fg_off bar)]
            else []))"

definition fill_cmds_horizontal ::
  "int \<Rightarrow> int \<Rightarrow> int \<Rightarrow> int \<Rightarrow> int \<Rightarrow> 'c bar_t \<Rightarrow> int \<Rightarrow> 'c draw_cmd list" where
  \<comment> \<open>lines 352 to 398; the last argument is \<^verbatim>\<open>pb_progress\<close> before mirroring\<close>
  "fill_cmds_horizontal pb_x pb_y pb_width pb_height pb_offset bar pb_progress0 =
     (let pb_progress = mirror bar pb_width pb_progress0;
          pattern_rect =
            (if reverse bar
             then \<lparr>area_x = pb_x + pb_width, area_y = pb_y, area_width = - pb_width,
                   area_height = 0\<rparr>
             else \<lparr>area_x = pb_x, area_y = pb_y, area_width = pb_width, area_height = 0\<rparr>);
          left = \<lparr>area_x = pb_x, area_y = pb_y + pb_offset,
                  area_width = pb_progress, area_height = pb_height\<rparr>;
          right = \<lparr>area_x = pb_x + pb_progress, area_y = pb_y + pb_offset,
                   area_width = pb_width - pb_progress, area_height = pb_height\<rparr>
      in (if pb_progress > 0 then
            [if reverse bar then Draw_rectangle left 1 True (fg_off bar)
             else Draw_rectangle_gradient left 1 True pattern_rect
                    (fg bar) (pfg_center bar) (pfg_end bar)]
          else [])
         @ (if pb_width - pb_progress > 0 then
              [if reverse bar then Draw_rectangle_gradient right 1 True pattern_rect
                                     (fg bar) (pfg_center bar) (pfg_end bar)
               else Draw_rectangle right 1 True (fg_off bar)]
            else []))"

partial_function (option) tick_gap_loop :: "int \<Rightarrow> int \<Rightarrow> int \<Rightarrow> int list \<Rightarrow> int list option" where
  \<comment> \<open>the loops of lines 307 and 405, \<^verbatim>\<open>for(pos = start; limit >= pos; pos += unit)\<close>: the
      positions at which a gap rectangle is drawn; the loop need not end\<close>
  "tick_gap_loop unit limit pos acc =
     (if limit \<ge> pos then tick_gap_loop unit limit (pos + unit) (acc @ [pos]) else Some acc)"

declare tick_gap_loop.simps [code]

definition gap_cmds_vertical ::
  "'c progressbar_data_t \<Rightarrow> int \<Rightarrow> int \<Rightarrow> int \<Rightarrow> int \<Rightarrow> int \<Rightarrow> int \<Rightarrow> 'c bar_t
     \<Rightarrow> 'c draw_cmd list option" where
  \<comment> \<open>lines 302 to 311\<close>
  "gap_cmds_vertical d unit pb_x pb_y pb_width pb_height pb_offset bar =
     (if ticks_on d then
        map_option
          (map (\<lambda>ry. Draw_rectangle
                  \<lparr>area_x = pb_x + pb_offset, area_y = ry, area_width = pb_width,
                   area_height = ticks_gap d\<rparr> 1 True (bg bar)))
          (tick_gap_loop unit (pb_y + pb_height - ticks_gap d) (pb_y + (unit - ticks_gap d)) [])
      else Some [])"

definition gap_cmds_horizontal ::
  "'c progressbar_data_t \<Rightarrow> int \<Rightarrow> int \<Rightarrow> int \<Rightarrow> int \<Rightarrow> int \<Rightarrow> int \<Rightarrow> 'c bar_t
     \<Rightarrow> 'c draw_cmd list option" where
  \<comment> \<open>lines 400 to 409\<close>
  "gap_cmds_horizontal d unit pb_x pb_y pb_width pb_height pb_offset bar =
     (if ticks_on d then
        map_option
          (map (\<lambda>rx. Draw_rectangle
                  \<lparr>area_x = rx, area_y = pb_y + pb_offset, area_width = ticks_gap d,
                   area_height = pb_height\<rparr> 1 True (bg bar)))
          (tick_gap_loop unit (pb_x + pb_width - ticks_gap d) (pb_x + (unit - ticks_gap d)) [])
      else Some [])"

definition draw_bar_vertical ::
  "'c progressbar_data_t \<Rightarrow> int \<Rightarrow> int \<Rightarrow> int \<Rightarrow> int \<Rightarrow> int \<Rightarrow> int \<Rightarrow> 'c bar_t
     \<Rightarrow> 'c draw_cmd list option" where
  \<comment> \<open>one turn of the loop of lines 220 to 313\<close>
  "draw_bar_vertical d unit pb_x pb_y pb_width pb_height pb_offset bar =
     (case bar_progress d pb_height unit bar of
        None \<Rightarrow> None
      | Some pb_progress0 \<Rightarrow>
          (case gap_cmds_vertical d unit pb_x pb_y pb_width pb_height pb_offset bar of
             None \<Rightarrow> None
           | Some gaps \<Rightarrow>
               Some (border_cmds d bar
                       \<lparr>area_x = pb_x + pb_offset - border_width d - border_padding d,
                        area_y = pb_y - border_width d - border_padding d,
                        area_width = pb_width + 2 * (border_padding d + border_width d),
                        area_height = pb_height + 2 * (border_padding d + border_width d)\<rparr>
                     @ fill_cmds_vertical pb_x pb_y pb_width pb_height pb_offset bar pb_progress0
                     @ gaps)))"

definition draw_bar_horizontal ::
  "'c progressbar_data_t \<Rightarrow> int \<Rightarrow> int \<Rightarrow> int \<Rightarrow> int \<Rightarrow> int \<Rightarrow> int \<Rightarrow> 'c bar_t
     \<Rightarrow> 'c draw_cmd list option" where
  \<comment> \<open>one turn of the loop of lines 323 to 412\<close>
  "draw_bar_horizontal d unit pb_x pb_y pb_width pb_height pb_offset bar =
     (case bar_progress d pb_width unit bar of
        None \<Rightarrow> None
      | Some pb_progress0 \<Rightarrow>
          (case gap_cmds_horizontal d unit pb_x pb_y pb_width pb_height pb_offset bar of
             None \<Rightarrow> None
           | Some gaps \<Rightarrow>
               Some (border_cmds d bar
                       \<lparr>area_x = pb_x - border_width d - border_padding d,
                        area_y = pb_y + pb_offset - border_width d - border_padding d,
                        area_width = pb_width + 2 * (border_padding d + border_width d),
                        area_height = pb_height + 2 * (border_padding d + border_width d)\<rparr>
                     @ fill_cmds_horizontal pb_x pb_y pb_width pb_height pb_offset bar pb_progress0
                     @ gaps)))"

fun draw_bars ::
  "(int \<Rightarrow> 'c bar_t \<Rightarrow> 'c draw_cmd list option) \<Rightarrow> int \<Rightarrow> int \<Rightarrow> 'c bar_t list
     \<Rightarrow> 'c draw_cmd list option" where
  \<comment> \<open>the loop over the bars: \<open>one pb_offset bar\<close> draws a bar, \<open>step\<close> is added to
      \<^verbatim>\<open>pb_offset\<close> after each (lines 312 and 411)\<close>
  "draw_bars one step pb_offset [] = Some []"
| "draw_bars one step pb_offset (bar # rest) =
     (case one pb_offset bar of
        None \<Rightarrow> None
      | Some cs \<Rightarrow> map_option ((@) cs) (draw_bars one step (pb_offset + step) rest))"

definition progressbar_draw ::
  "(int \<Rightarrow> int \<Rightarrow> int \<Rightarrow> int) \<Rightarrow> draw_context_t \<Rightarrow> 'c progressbar_data_t \<Rightarrow> area_t \<Rightarrow> int
     \<Rightarrow> (int \<times> area_t \<times> 'c draw_cmd list) option" where
  \<comment> \<open>\<open>wco\<close> is \<^verbatim>\<open>widget_calculate_offset\<close> at the widget's alignment, \<open>area\<close> is
      \<^verbatim>\<open>w->area\<close> before the call. The result is the value returned, \<^verbatim>\<open>w->area\<close> after the
      call and the drawing calls made; \<open>None\<close> when the run has no defined result.\<close>
  "progressbar_draw wco ctx d area offset =
     (if bars d = [] then Some (0, area, [])
      else
        (let nbbars = int (length (bars d));
             (unit0, pb_width, w) = layout_widths d nbbars;
             ax = wco (ctx_width ctx) w offset;
             pb_x = ax + border_width d + border_padding d;
             pb_y = pb_y_of d ctx 0;
             cmds =
               (if vertical d then
                  (let (unit, pb_height) = layout_vertical d ctx
                   in draw_bars (draw_bar_vertical d unit pb_x pb_y pb_width pb_height)
                        (pb_width + gap d + 2 * (border_width d + border_padding d)) 0 (bars d))
                else
                  (case pb_height_horizontal d ctx nbbars of
                     None \<Rightarrow> None
                   | Some pb_height \<Rightarrow>
                       draw_bars (draw_bar_horizontal d unit0 pb_x pb_y pb_width pb_height)
                         (pb_height + gap d + 2 * (border_width d + border_padding d)) 0 (bars d)))
         in map_option
              (\<lambda>cs. (w, \<lparr>area_x = ax, area_y = 0, area_width = w,
                          area_height = ctx_height ctx\<rparr>, cs))
              cmds))"



section \<open>The formulas of the spec\<close>


text \<open>
  The range update as the spec words it, one definition for each of its steps, in its
  order: store the new minimum if there is one; if \<open>max_value \<le> min_value\<close> bump the
  maximum by 0.0001; raise the value to the minimum if it is below it; store the new
  maximum if there is one; if \<open>min_value \<ge> max_value\<close> pull the minimum to the maximum
  less 0.0001; lower the value to the maximum if it is above it. The sums are the
  program's: computed in double and stored in a float.
\<close>

definition spec_store_min :: "real option \<Rightarrow> 'c bar_t \<Rightarrow> 'c bar_t" where
  "spec_store_min new_min bar =
     (case new_min of None \<Rightarrow> bar | Some m \<Rightarrow> bar\<lparr>min_value := f32 m\<rparr>)"

definition spec_bump_max :: "'c bar_t \<Rightarrow> 'c bar_t" where
  "spec_bump_max bar =
     (if max_value bar \<le> min_value bar
      then bar\<lparr>max_value := f32 (f64 (max_value bar + eps))\<rparr> else bar)"

definition spec_raise_value :: "'c bar_t \<Rightarrow> 'c bar_t" where
  "spec_raise_value bar =
     (if bvalue bar < min_value bar then bar\<lparr>bvalue := min_value bar\<rparr> else bar)"

definition spec_store_max :: "real option \<Rightarrow> 'c bar_t \<Rightarrow> 'c bar_t" where
  "spec_store_max new_max bar =
     (case new_max of None \<Rightarrow> bar | Some m \<Rightarrow> bar\<lparr>max_value := f32 m\<rparr>)"

definition spec_pull_min :: "'c bar_t \<Rightarrow> 'c bar_t" where
  "spec_pull_min bar =
     (if min_value bar \<ge> max_value bar
      then bar\<lparr>min_value := f32 (f64 (max_value bar - eps))\<rparr> else bar)"

definition spec_lower_value :: "'c bar_t \<Rightarrow> 'c bar_t" where
  "spec_lower_value bar =
     (if bvalue bar > max_value bar then bar\<lparr>bvalue := max_value bar\<rparr> else bar)"

definition spec_range_update :: "real option \<Rightarrow> real option \<Rightarrow> 'c bar_t \<Rightarrow> 'c bar_t" where
  "spec_range_update new_min new_max bar =
     spec_lower_value (spec_pull_min (spec_store_max new_max
       (spec_raise_value (spec_bump_max (spec_store_min new_min bar)))))"



section \<open>Example inputs\<close>

text \<open>
  Concrete inputs: a colour resolver that knows every colour name but
  \<^verbatim>\<open>nocolor\<close>, a 200 by 20 drawing context, a widget area, the offset computation of a
  left-aligned widget (\<^verbatim>\<open>widget_calculate_offset\<close> returns the offset it is given), a
  bar with given bounds and value, and the empty property table.
\<close>

definition demo_globalconf :: "string globalconf_t" where
  "demo_globalconf =
     \<lparr>colors_fg = ''fg'', colors_bg = ''bg'',
      xcolor_new = (\<lambda>s c. if s = ''nocolor'' then (False, c) else (True, s)),
      xcolor_zero = ''''\<rparr>"

definition demo_ctx :: draw_context_t where
  "demo_ctx = \<lparr>ctx_width = 200, ctx_height = 20\<rparr>"

definition demo_area :: area_t where
  "demo_area = \<lparr>area_x = 0, area_y = 0, area_width = 0, area_height = 0\<rparr>"

definition align_left :: "int \<Rightarrow> int \<Rightarrow> int \<Rightarrow> int" where
  "align_left barwidth widgetwidth offset = offset"

definition demo_bar :: "string \<Rightarrow> real \<Rightarrow> real \<Rightarrow> real \<Rightarrow> bool \<Rightarrow> string bar_t" where
  "demo_bar t lo hi v r =
     \<lparr>title = t, min_value = lo, max_value = hi, bvalue = v, reverse = r,
      fg = ''fg'', fg_off = ''off'', pfg_center = None, pfg_end = None,
      bg = ''bg'', bordercolor = ''border''\<rparr>"

definition demo_props :: bar_props where
  "demo_props =
     \<lparr>p_fg = None, p_bg = None, p_fg_off = None, p_border_color = None, p_fg_center = None,
      p_fg_end = None, p_min_value = None, p_max_value = None, p_reverse = None\<rparr>"




definition demo_ticks :: "string progressbar_data_t" where
  "demo_ticks = progressbar_new\<lparr>ticks_count := 10, bars := [demo_bar ''a'' 0 100 50 False]\<rparr>"

definition demo_reverse :: "string progressbar_data_t" where
  "demo_reverse = progressbar_new\<lparr>bars := [demo_bar ''a'' 0 100 25 True]\<rparr>"



text \<open>The fresh widget after a bar is created with \<open>min_value = max_value = 4096\<close>.\<close>

definition demo_collapsed :: "string progressbar_data_t" where
  "demo_collapsed =
     luaA_progressbar_bar_properties_set demo_globalconf progressbar_new ''a''
       (demo_props\<lparr>p_min_value := Some 4096, p_max_value := Some 4096\<rparr>)"

section \<open>Properties of the arithmetic\<close>

text \<open>
  Rounding to nearest is monotone, keeps the sign and is idempotent, and every binary32
  number is a binary64 number. These are the facts about floats the claims rest on.
\<close>

lemma rne_of_int: "rne (of_int n) = n"
  by (simp add: rne_def)

lemma rne_mono: "a \<le> b \<Longrightarrow> rne a \<le> rne b"
proof -
  assume ab: "a \<le> b"
  have fl: "\<lfloor>a\<rfloor> \<le> \<lfloor>b\<rfloor>" using ab by (rule floor_mono)
  have lo: "\<lfloor>b\<rfloor> \<le> rne b" by (simp add: rne_def Let_def)
  have hi: "rne a \<le> \<lfloor>a\<rfloor> + 1" by (simp add: rne_def Let_def)
  show ?thesis
  proof (cases "\<lfloor>a\<rfloor> = \<lfloor>b\<rfloor>")
    case True
    then have "a - of_int \<lfloor>a\<rfloor> \<le> b - of_int \<lfloor>b\<rfloor>" using ab by simp
    then show ?thesis using True by (auto simp: rne_def Let_def)
  next
    case False
    then have "\<lfloor>a\<rfloor> + 1 \<le> \<lfloor>b\<rfloor>" using fl by linarith
    then show ?thesis using lo hi by linarith
  qed
qed

lemma rne_nonneg: "0 \<le> t \<Longrightarrow> 0 \<le> rne t"
  using rne_mono [of 0 t] rne_of_int [of 0] by simp

lemma expo_bounds:
  assumes "0 < a"
  shows "2 powi (expo a) \<le> a \<and> a < 2 powi (expo a + 1)"
proof (cases "1 \<le> a")
  case True
  define n where "n = \<lfloor>a\<rfloor>"
  have n1: "0 < n" using True by (simp add: n_def)
  have b: "2 ^ nat (bitlen n - 1) \<le> n \<and> n < 2 ^ nat (bitlen n)"
    using bitlen_bounds [OF n1] .
  have bpos: "1 \<le> bitlen n" using n1 by (simp add: bitlen_def floorlog_def)
  have e: "expo a = bitlen n - 1" using True by (simp add: expo_def n_def)
  have "(2::real) powi (bitlen n - 1) = of_int (2 ^ nat (bitlen n - 1))"
    using bpos by (simp add: power_int_def)
  also have "\<dots> \<le> of_int n" using b by (simp only: of_int_le_iff)
  also have "\<dots> \<le> a" by (simp add: n_def)
  finally have lo: "2 powi (expo a) \<le> a" by (simp add: e)
  have "n + 1 \<le> 2 ^ nat (bitlen n)" using b by linarith
  then have "(of_int (n + 1) :: real) \<le> of_int (2 ^ nat (bitlen n))"
    by (simp only: of_int_le_iff)
  moreover have "a < of_int (n + 1)" by (simp add: n_def)
  moreover have "(2::real) powi (bitlen n) = of_int (2 ^ nat (bitlen n))"
    using bpos by (simp add: power_int_def)
  ultimately have hi: "a < 2 powi (expo a + 1)" by (simp add: e)
  show ?thesis using lo hi ..
next
  case False
  then have a1: "a < 1" by simp
  define m where "m = \<lceil>1 / a\<rceil> - 1"
  have "1 < 1 / a" using assms a1 by simp
  then have "2 \<le> \<lceil>1 / a\<rceil>" by linarith
  then have m1: "0 < m" by (simp add: m_def)
  have b: "2 ^ nat (bitlen m - 1) \<le> m \<and> m < 2 ^ nat (bitlen m)"
    using bitlen_bounds [OF m1] .
  have bpos: "1 \<le> bitlen m" using m1 by (simp add: bitlen_def floorlog_def)
  have e: "expo a = - bitlen m" using False by (simp add: expo_def m_def)
  have p1: "(2::real) powi (bitlen m) = of_int (2 ^ nat (bitlen m))"
    using bpos by (simp add: power_int_def)
  have p2: "(2::real) powi (bitlen m - 1) = of_int (2 ^ nat (bitlen m - 1))"
    using bpos by (simp add: power_int_def)
  have "1 / a \<le> of_int (m + 1)" by (simp add: m_def)
  also have "\<dots> \<le> of_int (2 ^ nat (bitlen m))"
    using b by (simp only: of_int_le_iff) linarith
  finally have "1 / a \<le> 2 powi (bitlen m)" by (simp add: p1)
  then have lo: "2 powi (expo a) \<le> a"
    using assms by (simp add: e power_int_minus field_simps)
  have q1: "of_int m < 1 / a" unfolding m_def by linarith
  have q2: "(of_int (2 ^ nat (bitlen m - 1)) :: real) \<le> of_int m"
    using b by (simp only: of_int_le_iff)
  define P where "P = (2::real) powi (bitlen m - 1)"
  have Ppos: "0 < P" by (simp add: P_def)
  have "P < 1 / a" unfolding P_def p2 using q1 q2 by linarith
  then have "a < 1 / P" using assms Ppos by (simp add: field_simps)
  moreover have "expo a + 1 = - (bitlen m - 1)" by (simp add: e)
  then have "(2::real) powi (expo a + 1) = 1 / P"
    unfolding P_def by (simp only: power_int_minus_divide)
  ultimately have hi: "a < 2 powi (expo a + 1)" by simp
  show ?thesis using lo hi ..
qed

lemma ulp_pos: "0 < ulp p emin a"
  by (simp add: ulp_def)

lemma pow2_add: "(2::real) powi (m + n) = 2 powi m * 2 powi n"
  by (simp add: power_int_add)

lemma pow2_split: "(2::real) powi (e + 1) = 2 powi (e - int p + 1) * 2 ^ p"
  using pow2_add [of "e - int p + 1" "int p"] by simp

lemma expo_mono:
  assumes "0 < a" "a \<le> b"
  shows "expo a \<le> expo b"
proof (rule ccontr)
  assume "\<not> expo a \<le> expo b"
  then have "expo b + 1 \<le> expo a" by simp
  then have "(2::real) powi (expo b + 1) \<le> 2 powi (expo a)"
    by (rule power_int_increasing) simp
  moreover have "2 powi (expo a) \<le> a" using expo_bounds [OF assms(1)] ..
  moreover have "b < 2 powi (expo b + 1)" using expo_bounds [of b] assms by simp
  ultimately show False using assms(2) by linarith
qed

lemma fround_pos:
  assumes "0 < a"
  shows "fround p emin a = ulp p emin a * of_int (rne (a / ulp p emin a))"
  using assms by (simp add: fround_def)

lemma fround_upper:
  assumes a: "0 < a"
  shows "fround p emin a \<le> 2 powi (max (expo a) emin + 1)"
proof -
  define e where "e = max (expo a) emin"
  define u where "u = ulp p emin a"
  have u: "u = 2 powi (e - int p + 1)" by (simp add: u_def e_def ulp_def)
  have upos: "0 < u" by (simp add: u)
  have "a < 2 powi (expo a + 1)" using expo_bounds [OF a] ..
  also have "\<dots> \<le> 2 powi (e + 1)"
    by (rule power_int_increasing) (simp_all add: e_def)
  finally have "a < 2 powi (e + 1)" .
  moreover have sp: "(2::real) powi (e + 1) = u * 2 ^ p"
    unfolding u by (rule pow2_split)
  ultimately have "a / u \<le> 2 ^ p"
    using upos by (simp add: field_simps)
  also have "(2::real) ^ p = of_int (2 ^ p)" by simp
  finally have "rne (a / u) \<le> rne (of_int (2 ^ p))" by (rule rne_mono)
  then have "rne (a / u) \<le> 2 ^ p" by (simp only: rne_of_int)
  then have "(of_int (rne (a / u)) :: real) \<le> of_int (2 ^ p)"
    by (simp only: of_int_le_iff)
  then have "u * of_int (rne (a / u)) \<le> u * of_int (2 ^ p)"
    using upos by (simp only: mult_le_cancel_left_pos)
  also have "\<dots> = 2 powi (e + 1)" unfolding sp by simp
  finally show ?thesis using a by (simp add: fround_pos u_def e_def)
qed

lemma fround_lower:
  assumes a: "0 < a" and p: "0 < p" and n: "emin \<le> expo a"
  shows "2 powi (expo a) \<le> fround p emin a"
proof -
  define e where "e = expo a"
  define u where "u = ulp p emin a"
  have u: "u = 2 powi (e - int p + 1)" using n by (simp add: u_def e_def ulp_def max_def)
  have upos: "0 < u" by (simp add: u)
  have pp: "int p - 1 = int (p - 1)" using p by simp
  have eq: "(2::real) powi e = u * of_int (2 ^ (p - 1))"
  proof -
    have "(2::real) powi e = 2 powi (e - int p + 1) * 2 powi (int p - 1)"
      using pow2_add [of "e - int p + 1" "int p - 1"] by simp
    also have "(2::real) powi (int p - 1) = of_int (2 ^ (p - 1))"
      unfolding pp by simp
    finally show ?thesis by (simp only: u)
  qed
  have "2 powi e \<le> a" unfolding e_def using expo_bounds [OF a] ..
  then have "of_int (2 ^ (p - 1)) \<le> a / u"
    unfolding eq using upos by (simp add: field_simps)
  then have "rne (of_int (2 ^ (p - 1))) \<le> rne (a / u)" by (rule rne_mono)
  then have "2 ^ (p - 1) \<le> rne (a / u)" by (simp only: rne_of_int)
  then have "(of_int (2 ^ (p - 1)) :: real) \<le> of_int (rne (a / u))"
    by (simp only: of_int_le_iff)
  then have "u * of_int (2 ^ (p - 1)) \<le> u * of_int (rne (a / u))"
    using upos by (simp only: mult_le_cancel_left_pos)
  then show ?thesis using a unfolding eq [symmetric] by (simp add: fround_pos u_def e_def)
qed

lemma fround_nonneg: "0 \<le> x \<Longrightarrow> 0 \<le> fround p emin x"
proof -
  assume x: "0 \<le> x"
  show ?thesis
  proof (cases "x = 0")
    case True
    then show ?thesis by (simp add: fround_def)
  next
    case False
    then have xp: "0 < x" using x by simp
    have "0 \<le> x / ulp p emin x" using xp ulp_pos [of p emin x] by simp
    then have "0 \<le> rne (x / ulp p emin x)" by (rule rne_nonneg)
    then show ?thesis using xp ulp_pos [of p emin x] by (simp add: fround_pos)
  qed
qed

lemma fround_minus: "fround p emin (- x) = - fround p emin x"
  by (simp add: fround_def sgn_minus)

lemma fround_mono_pos:
  assumes x: "0 < x" and xy: "x \<le> y" and p: "0 < p"
  shows "fround p emin x \<le> fround p emin y"
proof -
  have y: "0 < y" using x xy by simp
  have ee: "expo x \<le> expo y" using x xy by (rule expo_mono)
  show ?thesis
  proof (cases "max (expo x) emin = max (expo y) emin")
    case True
    then have u: "ulp p emin x = ulp p emin y" by (simp add: ulp_def)
    have "x / ulp p emin y \<le> y / ulp p emin y"
      using xy ulp_pos [of p emin y] by (simp add: divide_right_mono)
    then have "rne (x / ulp p emin y) \<le> rne (y / ulp p emin y)" by (rule rne_mono)
    then have "(of_int (rne (x / ulp p emin y)) :: real) \<le> of_int (rne (y / ulp p emin y))"
      by (simp only: of_int_le_iff)
    then have "ulp p emin y * of_int (rne (x / ulp p emin y))
        \<le> ulp p emin y * of_int (rne (y / ulp p emin y))"
      using ulp_pos [of p emin y] by (simp only: mult_le_cancel_left_pos)
    then show ?thesis using x y by (simp add: fround_pos u)
  next
    case False
    then have lt: "max (expo x) emin + 1 \<le> expo y" and n: "emin \<le> expo y"
      using ee by (auto simp: max_def split: if_splits)
    have "fround p emin x \<le> 2 powi (max (expo x) emin + 1)" using x by (rule fround_upper)
    also have "\<dots> \<le> 2 powi (expo y)"
      using lt by (rule power_int_increasing) simp
    also have "\<dots> \<le> fround p emin y" using y p n by (rule fround_lower)
    finally show ?thesis .
  qed
qed

lemma fround_mono:
  assumes xy: "x \<le> y" and p: "0 < p"
  shows "fround p emin x \<le> fround p emin y"
proof -
  consider "0 < x" | "x \<le> 0" "0 \<le> y" | "y < 0" by linarith
  then show ?thesis
  proof cases
    case 1
    then show ?thesis using xy p by (rule fround_mono_pos)
  next
    case 2
    have "0 \<le> fround p emin (- x)" using 2 by (intro fround_nonneg) simp
    then have "fround p emin x \<le> 0" by (simp add: fround_minus)
    also have "0 \<le> fround p emin y" using 2 by (intro fround_nonneg)
    finally show ?thesis .
  next
    case 3
    have "fround p emin (- y) \<le> fround p emin (- x)"
      using 3 xy p by (intro fround_mono_pos) simp_all
    then show ?thesis by (simp add: fround_minus)
  qed
qed

lemma expo_less:
  assumes "0 < y" "y < 2 powi (e + 1)"
  shows "expo y \<le> e"
proof (rule ccontr)
  assume "\<not> expo y \<le> e"
  then have "e + 1 \<le> expo y" by simp
  then have "(2::real) powi (e + 1) \<le> 2 powi (expo y)"
    by (rule power_int_increasing) simp
  moreover have "2 powi (expo y) \<le> y" using expo_bounds [OF assms(1)] ..
  ultimately show False using assms(2) by linarith
qed

lemma expo_pow2: "expo (2 powi n) = n"
proof -
  have pos: "(0::real) < 2 powi n" by simp
  have b: "2 powi (expo (2 powi n)) \<le> (2::real) powi n
           \<and> (2::real) powi n < 2 powi (expo (2 powi n) + 1)"
    using expo_bounds [OF pos] .
  have "expo (2 powi n) \<le> n"
  proof (rule ccontr)
    assume "\<not> expo (2 powi n) \<le> n"
    then have "n < expo (2 powi n)" by simp
    then have "(2::real) powi n < 2 powi (expo (2 powi n))"
      by (rule power_int_strict_increasing) simp
    then show False using b by linarith
  qed
  moreover have "n \<le> expo (2 powi n)"
  proof (rule ccontr)
    assume "\<not> n \<le> expo (2 powi n)"
    then have "expo (2 powi n) + 1 \<le> n" by simp
    then have "(2::real) powi (expo (2 powi n) + 1) \<le> 2 powi n"
      by (rule power_int_increasing) simp
    then show False using b by linarith
  qed
  ultimately show ?thesis by simp
qed

lemma fround_grid:
  assumes y: "0 < y" and u: "y = of_int k * 2 powi (ey - int p + 1 + int j)"
    and ey: "max (expo y) emin = ey"
  shows "fround p emin y = y"
proof -
  have ul: "ulp p emin y = 2 powi (ey - int p + 1)" by (simp add: ulp_def ey)
  have "y / ulp p emin y = y / 2 powi (ey - int p + 1)" by (simp only: ul)
  also have "\<dots> = (of_int k * 2 powi (ey - int p + 1 + int j)) / 2 powi (ey - int p + 1)"
    using u by simp
  also have "\<dots> = of_int k * 2 ^ j"
    using pow2_add [of "ey - int p + 1" "int j"] by simp
  also have "\<dots> = of_int (k * 2 ^ j)" by simp
  finally have q: "y / ulp p emin y = of_int (k * 2 ^ j)" .
  have "fround p emin y = ulp p emin y * of_int (rne (y / ulp p emin y))"
    using y by (rule fround_pos)
  also have "\<dots> = ulp p emin y * (y / ulp p emin y)"
    unfolding q rne_of_int ..
  also have "\<dots> = y" using ulp_pos [of p emin y] by simp
  finally show ?thesis .
qed

lemma fround_idem_pos:
  assumes x: "0 < x" and p: "0 < p"
  shows "fround p emin (fround p emin x) = fround p emin x"
proof -
  define e where "e = max (expo x) emin"
  define u where "u = (2::real) powi (e - int p + 1)"
  define k where "k = rne (x / u)"
  define y where "y = fround p emin x"
  have upos: "0 < u" by (simp add: u_def)
  have yk: "y = u * of_int k"
    using x by (simp add: y_def fround_pos ulp_def e_def u_def k_def)
  have k0: "0 \<le> k" unfolding k_def using x upos by (intro rne_nonneg) simp
  have up: "y \<le> 2 powi (e + 1)" unfolding y_def e_def using x by (rule fround_upper)
  show ?thesis
  proof (cases "k = 0")
    case True
    then have "y = 0" using yk by simp
    then show ?thesis unfolding y_def [symmetric] by (simp add: fround_def)
  next
    case False
    then have kpos: "0 < k" using k0 by simp
    then have ypos: "0 < y" using yk upos by simp
    show ?thesis
    proof (cases "y = 2 powi (e + 1)")
      case True
      have ex: "expo y = e + 1" unfolding True by (rule expo_pow2)
      have "emin \<le> e" by (simp add: e_def)
      then have m: "max (expo y) emin = e + 1" using ex by simp
      have pp: "(e + 1) - int p + 1 + int (p - 1) = e + 1" using p by simp
      have "y = of_int 1 * 2 powi ((e + 1) - int p + 1 + int (p - 1))"
        unfolding pp True by simp
      then have "fround p emin y = y" using ypos m by (intro fround_grid [where k = 1]) auto
      then show ?thesis by (simp add: y_def)
    next
      case False
      then have lt: "y < 2 powi (e + 1)" using up by simp
      have "expo y \<le> e" using ypos lt by (rule expo_less)
      moreover have "emin \<le> e" by (simp add: e_def)
      ultimately have le: "max (expo y) emin \<le> e" by simp
      define ey where "ey = max (expo y) emin"
      define j where "j = nat (e - ey)"
      have j: "e = ey + int j" using le by (simp add: j_def ey_def)
      have g: "y = of_int k * 2 powi (ey - int p + 1 + int j)"
        unfolding yk u_def j by (simp add: algebra_simps)
      have "max (expo y) emin = ey" by (simp add: ey_def)
      with ypos g have "fround p emin y = y" by (rule fround_grid)
      then show ?thesis by (simp add: y_def)
    qed
  qed
qed

lemma fround_idem:
  assumes p: "0 < p"
  shows "fround p emin (fround p emin x) = fround p emin x"
proof -
  consider "0 < x" | "x = 0" | "x < 0" by linarith
  then show ?thesis
  proof cases
    case 1
    then show ?thesis using p by (rule fround_idem_pos)
  next
    case 2
    then show ?thesis by (simp add: fround_def)
  next
    case 3
    then have "fround p emin (fround p emin (- x)) = fround p emin (- x)"
      using p by (intro fround_idem_pos) simp_all
    then show ?thesis by (simp add: fround_minus)
  qed
qed

lemma fround_finer:
  assumes g: "emin' - int p' \<le> emin - int p" "p \<le> p'"
    and r: "fround p emin r = r"
  shows "fround p' emin' r = r"
proof -
  have pos: "fround p' emin' a = a" if a: "0 < a" and f: "fround p emin a = a" for a
  proof -
    define e where "e = max (expo a) emin"
    define e' where "e' = max (expo a) emin'"
    define k where "k = rne (a / ulp p emin a)"
    have le: "e' - int p' \<le> e - int p" using g by (auto simp: e_def e'_def max_def)
    define j where "j = nat ((e - int p) - (e' - int p'))"
    have j: "e - int p + 1 = e' - int p' + 1 + int j" using le by (simp add: j_def)
    have "a = ulp p emin a * of_int k"
      using fround_pos [OF a, of p emin] f by (simp add: k_def)
    then have "a = of_int k * 2 powi (e' - int p' + 1 + int j)"
      unfolding j [symmetric] by (simp add: ulp_def e_def mult.commute)
    moreover have "max (expo a) emin' = e'" by (simp add: e'_def)
    ultimately show ?thesis using a by (intro fround_grid)
  qed
  consider "0 < r" | "r = 0" | "r < 0" by linarith
  then show ?thesis
  proof cases
    case 1
    then show ?thesis using r by (rule pos)
  next
    case 2
    then show ?thesis by (simp add: fround_def)
  next
    case 3
    have "fround p emin (- r) = - r" using r by (simp add: fround_minus)
    then have "fround p' emin' (- r) = - r" using 3 by (intro pos) simp_all
    then show ?thesis by (simp add: fround_minus)
  qed
qed

lemma f32_mono: "x \<le> y \<Longrightarrow> f32 x \<le> f32 y"
  unfolding f32_def by (rule fround_mono) simp_all

lemma f64_mono: "x \<le> y \<Longrightarrow> f64 x \<le> f64 y"
  unfolding f64_def by (rule fround_mono) simp_all



lemma f32_zero: "f32 0 = 0"
  by (simp add: f32_def fround_def)

lemma is_float_f32: "is_float (f32 x)"
  unfolding is_float_def f32_def by (rule fround_idem) simp

lemma is_float_zero: "is_float 0"
  by (simp add: is_float_def f32_zero)

lemma f32_f32: "f32 (f32 r) = f32 r"
  using is_float_f32 [of r] by (simp add: is_float_def)

lemma is_float_f64: "is_float r \<Longrightarrow> f64 r = r"
  unfolding is_float_def f32_def f64_def by (rule fround_finer) simp_all



subsection \<open>Values of the examples\<close>

text \<open>
  The rounded values the examples need, computed from the definitions.
\<close>

lemma f32_one: "f32 1 = 1"
  by code_simp

lemma f32_5: "f32 5 = 5"
  by code_simp

lemma f32_10: "f32 10 = 10"
  by code_simp

lemma f32_100: "f32 100 = 100"
  by code_simp

lemma f32_4096: "f32 4096 = 4096"
  by code_simp

lemma eps_pos: "0 < eps"
  by code_simp

lemma five_minus_eps: "f32 (f64 (5 - eps)) = 5242775 / 1048576"
  by code_simp

lemma collapse_4096: "f32 (f64 (4096 - eps)) = 4096"
  by code_simp


lemma store_below:
  assumes "is_float r"
  shows "f32 (f64 (r - eps)) \<le> r"
proof -
  have "f64 (r - eps) \<le> f64 r" using eps_pos by (intro f64_mono) simp
  then have "f32 (f64 (r - eps)) \<le> f32 (f64 r)" by (rule f32_mono)
  then show ?thesis using assms by (simp add: is_float_f64) (simp add: is_float_def)
qed

section \<open>When a draw call returns\<close>

text \<open>
  The loop that draws the tick gaps ends when its step is positive, and then draws at
  evenly spaced positions. A draw call has a defined result when that loop ends and no
  bar has a zero range; the value it returns is the widget's \<^verbatim>\<open>area.width\<close>.
\<close>

lemma tick_gap_loop_result:
  assumes u: "0 < unit"
  shows "tick_gap_loop unit limit pos acc =
           Some (acc @ map (\<lambda>k. pos + int k * unit) [0..<nat ((limit - pos) div unit + 1)])"
proof (induction "nat ((limit - pos) div unit + 1)" arbitrary: pos acc)
  case 0
  have "\<not> pos \<le> limit"
  proof
    assume "pos \<le> limit"
    then have "0 \<le> (limit - pos) div unit" using u by (simp add: pos_imp_zdiv_nonneg_iff)
    then show False using 0 by simp
  qed
  then show ?case using 0 by (subst tick_gap_loop.simps) simp
next
  case (Suc n)
  have le: "pos \<le> limit"
  proof (rule ccontr)
    assume "\<not> pos \<le> limit"
    then have "limit - pos < 0" by simp
    then have "(limit - pos) div unit < 0" using u by (simp add: div_neg_pos_less0)
    then show False using Suc(2) by simp
  qed
  have d: "(limit - (pos + unit)) div unit = (limit - pos) div unit - 1"
  proof -
    have "limit - (pos + unit) = (limit - pos) + (- 1) * unit" by simp
    then show ?thesis using u by (simp only: div_mult_self1)
  qed
  have n: "n = nat ((limit - (pos + unit)) div unit + 1)" using Suc(2) d by simp
  have n': "nat ((limit - pos) div unit + 1) = Suc n" using Suc(2) by simp
  have sh: "map (\<lambda>k. pos + int k * unit) [0..<Suc n]
            = pos # map (\<lambda>k. pos + unit + int k * unit) [0..<n]"
    by (simp add: upt_conv_Cons map_Suc_upt [symmetric] algebra_simps del: upt_Suc)
  have "tick_gap_loop unit limit pos acc = tick_gap_loop unit limit (pos + unit) (acc @ [pos])"
    using le by (subst tick_gap_loop.simps) simp
  also have "\<dots> = Some ((acc @ [pos]) @ map (\<lambda>k. pos + unit + int k * unit) [0..<n])"
    using Suc(1) [OF n] n by simp
  finally show ?case by (simp only: n' sh) simp
qed


lemma bar_progress_zero_range:
  "max_value bar = min_value bar \<Longrightarrow> bar_progress d len unit bar = None"
  by (simp add: bar_progress_def fdiv32_def f32_zero)








lemma progressbar_draw_value:
  assumes ne: "bars d \<noteq> []" and r: "progressbar_draw wco ctx d area offset = Some r"
  shows "fst r = snd (snd (layout_widths d (int (length (bars d)))))"
  using ne r unfolding progressbar_draw_def
  by (auto simp: Let_def split: prod.splits if_splits option.splits)

subsection \<open>The examples, evaluated\<close>

lemma demo_ctx_fields: "ctx_width demo_ctx = 200" "ctx_height demo_ctx = 20"
  by (simp_all add: demo_ctx_def)

lemma demo_bar_fields:
  "fg (demo_bar t lo hi v r) = ''fg''" "fg_off (demo_bar t lo hi v r) = ''off''"
  "bg (demo_bar t lo hi v r) = ''bg''" "bordercolor (demo_bar t lo hi v r) = ''border''"
  "pfg_center (demo_bar t lo hi v r) = None" "pfg_end (demo_bar t lo hi v r) = None"
  "reverse (demo_bar t lo hi v r) = r"
  by (simp_all add: demo_bar_def)








lemma demo_ticks_fields:
  "bars demo_ticks = [demo_bar ''a'' 0 100 50 False]" "width demo_ticks = 80"
  "gap demo_ticks = 2" "border_width demo_ticks = 1" "border_padding demo_ticks = 0"
  "ticks_gap demo_ticks = 1" "ticks_count demo_ticks = 10" "vertical demo_ticks = False"
  by (simp_all add: demo_ticks_def progressbar_new_def)

lemma demo_ticks_layout: "layout_widths demo_ticks 1 = (7, 69, 71)"
  by (simp add: layout_widths_def ticks_on_def frame_def demo_ticks_fields signed_divide_int_def)

lemma demo_ticks_height: "pb_height_horizontal demo_ticks demo_ctx 1 = Some 14"
  by code_simp

lemma demo_ticks_y: "pb_y_of demo_ticks demo_ctx 0 = 2"
  by code_simp

lemma demo_ticks_progress:
  "bar_progress demo_ticks 69 7 (demo_bar ''a'' 0 100 50 False) = Some 34"
  by code_simp


lemma demo_ticks_positions: "tick_gap_loop 7 69 7 [] = Some [7, 14, 21, 28, 35, 42, 49, 56, 63]"
  by code_simp

lemma demo_reverse_fields:
  "bars demo_reverse = [demo_bar ''a'' 0 100 25 True]" "width demo_reverse = 80"
  "gap demo_reverse = 2" "border_width demo_reverse = 1" "border_padding demo_reverse = 0"
  "ticks_gap demo_reverse = 1" "ticks_count demo_reverse = 0" "vertical demo_reverse = False"
  by (simp_all add: demo_reverse_def progressbar_new_def)

lemma demo_reverse_layout: "layout_widths demo_reverse 1 = (0, 78, 80)"
  by (simp add: layout_widths_def ticks_on_def frame_def demo_reverse_fields)

lemma demo_reverse_height: "pb_height_horizontal demo_reverse demo_ctx 1 = Some 14"
  by code_simp

lemma demo_reverse_y: "pb_y_of demo_reverse demo_ctx 0 = 2"
  by code_simp

lemma demo_reverse_progress:
  "bar_progress demo_reverse 78 0 (demo_bar ''a'' 0 100 25 True) = Some 20"
  by code_simp





lemma demo_collapsed_bars:
  "bars demo_collapsed
     = [\<lparr>title = ''a'', min_value = 4096, max_value = 4096, bvalue = 4096, reverse = False,
         fg = ''fg'', fg_off = ''bg'', pfg_center = None, pfg_end = None,
         bg = ''bg'', bordercolor = ''fg''\<rparr>]"
  by (simp add: demo_collapsed_def luaA_progressbar_bar_properties_set_def bar_upsert_def
        progressbar_new_def progressbar_bar_add_def new_bar_def bar_properties_apply_def
        demo_props_def demo_globalconf_def bar_range_set_def Let_def f32_100 f32_4096
        collapse_4096)

section \<open>Claims about the bar registry\<close>

subsection \<open>Range invariants (C2)\<close>

text \<open>
  What the mutating operations do guarantee: a new bar has \<open>0 < 100\<close> as its range and
  0 as its value; after a range update \<open>min_value \<le> max_value\<close> and the value lies
  between the bounds; a value-add on a bar with ordered float bounds stores a value
  between them. The strict inequality is another matter.
\<close>

lemma new_bar_invariant:
  "min_value (new_bar g t) < max_value (new_bar g t)
   \<and> min_value (new_bar g t) \<le> bvalue (new_bar g t)
   \<and> bvalue (new_bar g t) \<le> max_value (new_bar g t)
   \<and> is_float (min_value (new_bar g t)) \<and> is_float (max_value (new_bar g t))"
  by (simp add: new_bar_def f32_100 is_float_def f32_zero)

lemma bar_range_set_weak_invariant:
  "min_value (bar_range_set new_min new_max bar) \<le> max_value (bar_range_set new_min new_max bar)
   \<and> min_value (bar_range_set new_min new_max bar) \<le> bvalue (bar_range_set new_min new_max bar)
   \<and> bvalue (bar_range_set new_min new_max bar) \<le> max_value (bar_range_set new_min new_max bar)"
proof -
  define lo where "lo = f32 (case new_min of Some m \<Rightarrow> m | None \<Rightarrow> min_value bar)"
  define hi0 where "hi0 = (if max_value bar \<le> lo then f32 (f64 (max_value bar + eps))
                            else max_value bar)"
  define v0 where "v0 = (if bvalue bar < lo then lo else bvalue bar)"
  define hi where "hi = f32 (case new_max of Some m \<Rightarrow> m | None \<Rightarrow> hi0)"
  have fhi: "is_float hi" unfolding hi_def by (rule is_float_f32)
  have v0: "lo \<le> v0" by (simp add: v0_def)
  have below: "f32 (f64 (hi - eps)) \<le> hi" using fhi by (rule store_below)
  have a: "min_value (bar_range_set new_min new_max bar)
      = (if lo \<ge> hi then f32 (f64 (hi - eps)) else lo)"
    by (cases new_min; cases new_max)
      (simp_all add: bar_range_set_def Let_def lo_def hi0_def v0_def hi_def)
  have b: "max_value (bar_range_set new_min new_max bar) = hi"
    by (cases new_min; cases new_max)
      (simp_all add: bar_range_set_def Let_def lo_def hi0_def v0_def hi_def)
  have c: "bvalue (bar_range_set new_min new_max bar) = (if v0 > hi then hi else v0)"
    by (cases new_min; cases new_max)
      (simp_all add: bar_range_set_def Let_def lo_def hi0_def v0_def hi_def)
  show ?thesis unfolding a b c using v0 below by auto
qed

lemma bar_value_set_in_range:
  assumes "is_float (min_value bar)" and "is_float (max_value bar)"
    and "min_value bar \<le> max_value bar"
  shows "min_value (bar_value_set v bar) \<le> bvalue (bar_value_set v bar)
         \<and> bvalue (bar_value_set v bar) \<le> max_value (bar_value_set v bar)"
proof -
  define c where "c = c_MAX (min_value bar) (c_MIN (max_value bar) v)"
  have "min_value bar \<le> c" "c \<le> max_value bar"
    using assms(3) by (auto simp: c_def c_MAX_def c_MIN_def)
  then have "f32 (min_value bar) \<le> f32 c" "f32 c \<le> f32 (max_value bar)"
    by (auto intro: f32_mono)
  then show ?thesis using assms(1,2) by (simp add: bar_value_set_def c_def is_float_def)
qed

text \<open>
  Claim C2 says that after every mutating operation \<open>min_value < max_value\<close> strictly. The
  comment in the source says the same of the update (it is there to prevent a division by
  zero when both are equal). Creating a bar with \<open>min_value = max_value = 4096\<close> breaks it:
  the minimum is pulled to \<open>4096 - 0.0001\<close>, which rounds back to 4096 when stored in the
  float field, so the bar is left with \<open>min_value = max_value = value = 4096\<close>, and the
  next draw call divides by the zero range.
\<close>

theorem C2_range_collapses_at_4096:
  "bars (luaA_progressbar_bar_properties_set demo_globalconf progressbar_new ''a''
           (demo_props\<lparr>p_min_value := Some 4096, p_max_value := Some 4096\<rparr>))
     = [\<lparr>title = ''a'', min_value = 4096, max_value = 4096, bvalue = 4096, reverse = False,
         fg = ''fg'', fg_off = ''bg'', pfg_center = None, pfg_end = None,
         bg = ''bg'', bordercolor = ''fg''\<rparr>]
   \<and> progressbar_draw align_left demo_ctx
        (luaA_progressbar_bar_properties_set demo_globalconf progressbar_new ''a''
           (demo_props\<lparr>p_min_value := Some 4096, p_max_value := Some 4096\<rparr>))
        demo_area 0 = None"
proof -
  have "progressbar_draw align_left demo_ctx demo_collapsed demo_area 0 = None"
    by (simp add: progressbar_draw_def demo_collapsed_bars draw_bar_horizontal_def
          draw_bar_vertical_def bar_progress_zero_range Let_def
          split: prod.splits option.splits)
  then show ?thesis
    using demo_collapsed_bars unfolding demo_collapsed_def by simp
qed

subsection \<open>Order of the range update (C3)\<close>

text \<open>
  Claim C3. On a bar whose bounds are floats, the range update of bar-properties-set is
  the six steps of the spec in their order: the new minimum is stored and reconciled with
  the old maximum before the new maximum is stored and reconciled. Setting
  \<open>max_value = 5\<close> on a bar with \<open>min_value = 10\<close> leaves \<open>min_value\<close> at \<open>5 - 0.0001\<close> as
  the program computes it, the float 5242775 / 1048576, within 0.00000025 of 4.9999.
\<close>

theorem C3_range_update_order:
  assumes "is_float (min_value bar)" and "is_float (max_value bar)"
  shows "bar_range_set new_min new_max bar = spec_range_update new_min new_max bar
         \<and> (min_value bar = 10
              \<longrightarrow> min_value (bar_range_set None (Some 5) bar) = f32 (f64 (5 - eps))
                  \<and> f32 (f64 (5 - eps)) = 5242775 / 1048576
                  \<and> \<bar>f32 (f64 (5 - eps)) - (5 - 1 / 10000)\<bar> < 1 / 4000000)"
proof -
  have mn: "f32 (min_value bar) = min_value bar" and mx: "f32 (max_value bar) = max_value bar"
    using assms by (simp_all add: is_float_def)
  have a: "bar_range_set new_min new_max bar = spec_range_update new_min new_max bar"
    by (cases new_min; cases new_max)
      (simp_all add: bar_range_set_def spec_range_update_def spec_store_min_def
        spec_bump_max_def spec_raise_value_def spec_store_max_def spec_pull_min_def
        spec_lower_value_def Let_def mn mx f32_f32)
  have b: "min_value bar = 10
             \<longrightarrow> min_value (bar_range_set None (Some 5) bar) = f32 (f64 (5 - eps))"
    by (simp add: bar_range_set_def Let_def f32_5 f32_10)
  have c: "\<bar>f32 (f64 (5 - eps)) - (5 - 1 / 10000)\<bar> < 1 / 4000000"
    unfolding five_minus_eps by simp
  show ?thesis using a b c five_minus_eps by blast
qed

text \<open>The theorem at a bar with the range 10 to 100.\<close>

theorem C3_witness:
  "bar_range_set None (Some 5) (demo_bar ''a'' 10 100 10 False)
     = (demo_bar ''a'' 10 100 10 False)
         \<lparr>min_value := 5242775 / 1048576, max_value := 5, bvalue := 5\<rparr>"
proof -
  have f: "is_float (min_value (demo_bar ''a'' 10 100 10 False))"
    "is_float (max_value (demo_bar ''a'' 10 100 10 False))"
    by (simp_all add: is_float_def demo_bar_def f32_10 f32_100)
  show ?thesis
    using C3_range_update_order [OF f, of None "Some 5"]
    by (simp add: spec_range_update_def spec_store_min_def spec_bump_max_def
          spec_raise_value_def spec_store_max_def spec_pull_min_def spec_lower_value_def
          demo_bar_def f32_5 five_minus_eps)
qed

subsection \<open>Gradient colours that do not resolve (C10)\<close>

lemma bar_range_set_colours:
  "pfg_center (bar_range_set a b bar) = pfg_center bar"
  "pfg_end (bar_range_set a b bar) = pfg_end bar"
  by (simp_all add: bar_range_set_def Let_def)

text \<open>
  Claim C10. When \<^verbatim>\<open>xcolor_new\<close> fails on a slot that was \<^verbatim>\<open>NULL\<close>, the freshly
  allocated colour is released and the pointer is \<^verbatim>\<open>NULL\<close> again; a slot that held a
  colour stays non-null whatever the outcome. So setting \<^verbatim>\<open>fg_center\<close> or \<^verbatim>\<open>fg_end\<close>
  to a colour that does not resolve leaves an absent gradient colour absent and a present
  one present.
\<close>

theorem C10_failed_gradient_colour:
  "(\<not> fst (xcolor_new g buf (xcolor_zero g)) \<longrightarrow> progressbar_pcolor_set g None buf = None)
   \<and> progressbar_pcolor_set g (Some c) buf \<noteq> None
   \<and> (p_fg_center props = Some buf \<and> pfg_center bar = None
        \<and> \<not> fst (xcolor_new g buf (xcolor_zero g))
       \<longrightarrow> pfg_center (bar_properties_apply g props bar) = None)
   \<and> (p_fg_end props = Some buf \<and> pfg_end bar = None
        \<and> \<not> fst (xcolor_new g buf (xcolor_zero g))
       \<longrightarrow> pfg_end (bar_properties_apply g props bar) = None)
   \<and> (p_fg_center props = Some buf \<and> pfg_center bar \<noteq> None
       \<longrightarrow> pfg_center (bar_properties_apply g props bar) \<noteq> None)
   \<and> (p_fg_end props = Some buf \<and> pfg_end bar \<noteq> None
       \<longrightarrow> pfg_end (bar_properties_apply g props bar) \<noteq> None)"
  by (auto simp: progressbar_pcolor_set_def bar_properties_apply_def Let_def
        bar_range_set_colours split: prod.splits option.splits)

text \<open>The theorem with a colour name the resolver of the examples rejects.\<close>

theorem C10_witness:
  "progressbar_pcolor_set demo_globalconf None ''nocolor'' = None
   \<and> pfg_center (bar_properties_apply demo_globalconf
        (demo_props\<lparr>p_fg_center := Some ''nocolor''\<rparr>) (demo_bar ''a'' 0 100 25 False)) = None
   \<and> pfg_end (bar_properties_apply demo_globalconf
        (demo_props\<lparr>p_fg_end := Some ''nocolor''\<rparr>) (demo_bar ''a'' 0 100 25 False)) = None
   \<and> pfg_center (bar_properties_apply demo_globalconf
        (demo_props\<lparr>p_fg_center := Some ''nocolor''\<rparr>)
        ((demo_bar ''a'' 0 100 25 False)\<lparr>pfg_center := Some ''red''\<rparr>)) \<noteq> None
   \<and> pfg_end (bar_properties_apply demo_globalconf
        (demo_props\<lparr>p_fg_end := Some ''nocolor''\<rparr>)
        ((demo_bar ''a'' 0 100 25 False)\<lparr>pfg_end := Some ''red''\<rparr>)) \<noteq> None"
  using C10_failed_gradient_colour [of demo_globalconf "''nocolor''" "''red''"
      "demo_props\<lparr>p_fg_center := Some ''nocolor''\<rparr>" "demo_bar ''a'' 0 100 25 False"]
    C10_failed_gradient_colour [of demo_globalconf "''nocolor''" "''red''"
      "demo_props\<lparr>p_fg_end := Some ''nocolor''\<rparr>" "demo_bar ''a'' 0 100 25 False"]
    C10_failed_gradient_colour [of demo_globalconf "''nocolor''" "''red''"
      "demo_props\<lparr>p_fg_center := Some ''nocolor''\<rparr>"
      "(demo_bar ''a'' 0 100 25 False)\<lparr>pfg_center := Some ''red''\<rparr>"]
    C10_failed_gradient_colour [of demo_globalconf "''nocolor''" "''red''"
      "demo_props\<lparr>p_fg_end := Some ''nocolor''\<rparr>"
      "(demo_bar ''a'' 0 100 25 False)\<lparr>pfg_end := Some ''red''\<rparr>"]
  by (simp add: demo_globalconf_def demo_props_def demo_bar_def)

section \<open>Claims about the layout\<close>

subsection \<open>Empty bar collection (C9)\<close>

text \<open>
  Claim C9. With an empty bar collection the draw entry point is a no-op in either
  orientation: it makes no drawing call, returns extent 0, leaves the widget's area as it
  was, and has a defined result (the division by the bar count is never evaluated).
\<close>

theorem C9_empty_collection_noop:
  "progressbar_draw wco ctx (d\<lparr>bars := []\<rparr>) area offset = Some (0, area, [])"
  by (simp add: progressbar_draw_def)

subsection \<open>Vertical layout (C7)\<close>



subsection \<open>The value returned (C5)\<close>




section \<open>Claims about the progress length\<close>






subsection \<open>The formula (C4)\<close>



subsection \<open>Monotonicity (C8)\<close>




section \<open>Claims about the drawing calls\<close>

subsection \<open>Reversed bars (C1)\<close>

text \<open>
  Claim C1 says that for a reversed bar the segment at the low end is drawn solid with
  \<open>fg_off\<close> and the segment at the high end is drawn solid with \<open>fg_off\<close> too, not with the
  gradient. The default widget with one reversed bar at 25 of 100 draws the 58 pixels at
  the low (left) end solid with \<open>fg_off\<close> and the 20 pixels at the high end with the
  gradient call.
\<close>

theorem C1_counterexample:
  "reverse (demo_bar ''a'' 0 100 25 True)
   \<and> progressbar_draw align_left demo_ctx demo_reverse demo_area 0
     = Some (80, \<lparr>area_x = 0, area_y = 0, area_width = 80, area_height = 20\<rparr>,
         [Draw_rectangle \<lparr>area_x = 0, area_y = 1, area_width = 80, area_height = 16\<rparr>
            1 False ''border'',
          Draw_rectangle \<lparr>area_x = 1, area_y = 2, area_width = 58, area_height = 14\<rparr>
            1 True ''off'',
          Draw_rectangle_gradient \<lparr>area_x = 59, area_y = 2, area_width = 20, area_height = 14\<rparr>
            1 True \<lparr>area_x = 79, area_y = 2, area_width = - 78, area_height = 0\<rparr>
            ''fg'' None None])"
  by (simp add: progressbar_draw_def demo_reverse_fields demo_reverse_layout demo_reverse_height
        demo_reverse_y demo_ctx_fields align_left_def draw_bar_horizontal_def
        demo_reverse_progress gap_cmds_horizontal_def ticks_on_def border_cmds_def f32_one
        fill_cmds_horizontal_def mirror_def demo_bar_fields Let_def)

text \<open>
  Claim C1, amended. For a bar drawn with \<open>reverse\<close> set, whose progress before mirroring
  is \<open>p\<close> on a secondary length \<open>len\<close>, the progress becomes \<open>len - p\<close>; the segment at the
  low end of the secondary axis (left when horizontal, bottom when vertical), of length
  \<open>len - p\<close>, is drawn solid with \<open>fg_off\<close>, and the segment at the high end, of length
  \<open>p\<close>, is drawn with the gradient fill \<open>fg\<close>, \<open>fg_center\<close>, \<open>fg_end\<close> over the mirrored
  pattern rectangle. A segment of no positive length is not drawn.
\<close>

theorem C1_reversed_fill_segments:
  assumes "reverse bar"
  shows "mirror bar len p = len - p
         \<and> fill_cmds_horizontal pb_x pb_y len pb_height pb_offset bar p
           = (if 0 < len - p
              then [Draw_rectangle
                      \<lparr>area_x = pb_x, area_y = pb_y + pb_offset,
                       area_width = len - p, area_height = pb_height\<rparr> 1 True (fg_off bar)]
              else [])
             @ (if 0 < p
                then [Draw_rectangle_gradient
                        \<lparr>area_x = pb_x + (len - p), area_y = pb_y + pb_offset,
                         area_width = p, area_height = pb_height\<rparr> 1 True
                        \<lparr>area_x = pb_x + len, area_y = pb_y, area_width = - len,
                         area_height = 0\<rparr>
                        (fg bar) (pfg_center bar) (pfg_end bar)]
                else [])
         \<and> fill_cmds_vertical pb_x pb_y pb_width len pb_offset bar p
           = (if 0 < len - p
              then [Draw_rectangle
                      \<lparr>area_x = pb_x + pb_offset, area_y = pb_y + p,
                       area_width = pb_width, area_height = len - p\<rparr> 1 True (fg_off bar)]
              else [])
             @ (if 0 < p
                then [Draw_rectangle_gradient
                        \<lparr>area_x = pb_x + pb_offset, area_y = pb_y,
                         area_width = pb_width, area_height = p\<rparr> 1 True
                        \<lparr>area_x = pb_x, area_y = pb_y, area_width = 0, area_height = len\<rparr>
                        (fg bar) (pfg_center bar) (pfg_end bar)]
                else [])"
  using assms by (simp add: fill_cmds_horizontal_def fill_cmds_vertical_def mirror_def Let_def)

text \<open>The amended statement for a reversed bar at 25 of 100, in both orientations.\<close>

theorem C1_witness:
  "fill_cmds_horizontal 1 2 78 14 0 (demo_bar ''a'' 0 100 25 True) 20
     = [Draw_rectangle \<lparr>area_x = 1, area_y = 2, area_width = 58, area_height = 14\<rparr>
          1 True ''off'',
        Draw_rectangle_gradient \<lparr>area_x = 59, area_y = 2, area_width = 20, area_height = 14\<rparr>
          1 True \<lparr>area_x = 79, area_y = 2, area_width = - 78, area_height = 0\<rparr>
          ''fg'' None None]
   \<and> fill_cmds_vertical 1 2 78 14 0 (demo_bar ''a'' 0 100 25 True) 4
     = [Draw_rectangle \<lparr>area_x = 1, area_y = 6, area_width = 78, area_height = 10\<rparr>
          1 True ''off'',
        Draw_rectangle_gradient \<lparr>area_x = 1, area_y = 2, area_width = 78, area_height = 4\<rparr>
          1 True \<lparr>area_x = 1, area_y = 2, area_width = 0, area_height = 14\<rparr>
          ''fg'' None None]"
  using C1_reversed_fill_segments [of "demo_bar ''a'' 0 100 25 True" 78 20 1 2 14 0 78]
    C1_reversed_fill_segments [of "demo_bar ''a'' 0 100 25 True" 14 4 1 2 78 0 78]
  by (simp add: demo_bar_fields)

subsection \<open>Tick gaps (C6)\<close>

text \<open>With ticks on, both layouts round the secondary length of a bar to whole ticks.\<close>

lemma layout_widths_ticks:
  "ticks_on d \<Longrightarrow> \<not> vertical d \<Longrightarrow> layout_widths d n = (unit, len, w)
   \<Longrightarrow> len = unit * ticks_count d - ticks_gap d"
  by (auto simp: layout_widths_def Let_def)

lemma layout_vertical_ticks:
  "ticks_on d \<Longrightarrow> layout_vertical d ctx = (unit, len)
   \<Longrightarrow> len = unit * ticks_count d - ticks_gap d"
  by (auto simp: layout_vertical_def Let_def)

lemma tick_gap_count:
  assumes g: "0 < g" "g \<le> unit"
  shows "nat ((p + (unit * c - g) - g - (p + (unit - g))) div unit + 1) = nat (c - 1)"
proof -
  have u: "unit \<noteq> 0" using g by simp
  have e: "p + (unit * c - g) - g - (p + (unit - g)) = (unit - g) + (c - 2) * unit"
    by (simp add: algebra_simps)
  have "((unit - g) + (c - 2) * unit) div unit = (c - 2) + (unit - g) div unit"
    by (rule div_mult_self1 [OF u])
  also have "(unit - g) div unit = 0" using g by (simp add: div_pos_pos_trivial)
  finally have "(p + (unit * c - g) - g - (p + (unit - g))) div unit = c - 2"
    unfolding e by simp
  then show ?thesis by simp
qed

lemma gap_cmds_horizontal_ticks:
  assumes "0 < ticks_count d" and "0 < ticks_gap d" and "ticks_gap d \<le> unit"
    and "len = unit * ticks_count d - ticks_gap d"
  shows "gap_cmds_horizontal d unit pb_x pb_y len pb_height pb_offset bar
           = Some (map (\<lambda>k. Draw_rectangle
                          \<lparr>area_x = pb_x + (unit - ticks_gap d) + int k * unit,
                           area_y = pb_y + pb_offset, area_width = ticks_gap d,
                           area_height = pb_height\<rparr> 1 True (bg bar))
                     [0..<nat (ticks_count d - 1)])"
proof -
  have on: "ticks_on d" using assms(1,2) by (simp add: ticks_on_def)
  have u: "0 < unit" using assms(2,3) by simp
  have c: "nat ((pb_x + len - ticks_gap d - (pb_x + (unit - ticks_gap d))) div unit + 1)
             = nat (ticks_count d - 1)"
    unfolding assms(4) using tick_gap_count [OF assms(2,3)] by simp
  show ?thesis
    unfolding gap_cmds_horizontal_def tick_gap_loop_result [OF u] c using on by simp
qed

lemma gap_cmds_vertical_ticks:
  assumes "0 < ticks_count d" and "0 < ticks_gap d" and "ticks_gap d \<le> unit"
    and "len = unit * ticks_count d - ticks_gap d"
  shows "gap_cmds_vertical d unit pb_x pb_y pb_width len pb_offset bar
           = Some (map (\<lambda>k. Draw_rectangle
                          \<lparr>area_x = pb_x + pb_offset,
                           area_y = pb_y + (unit - ticks_gap d) + int k * unit,
                           area_width = pb_width, area_height = ticks_gap d\<rparr> 1 True (bg bar))
                     [0..<nat (ticks_count d - 1)])"
proof -
  have on: "ticks_on d" using assms(1,2) by (simp add: ticks_on_def)
  have u: "0 < unit" using assms(2,3) by simp
  have c: "nat ((pb_y + len - ticks_gap d - (pb_y + (unit - ticks_gap d))) div unit + 1)
             = nat (ticks_count d - 1)"
    unfolding assms(4) using tick_gap_count [OF assms(2,3)] by simp
  show ?thesis
    unfolding gap_cmds_vertical_def tick_gap_loop_result [OF u] c using on by simp
qed

text \<open>
  Claim C6, amended. With tick quantization active (\<open>ticks_count > 0\<close>, \<open>ticks_gap > 0\<close>)
  and a gap no wider than a unit, each bar's drawing calls are its border, its fill
  segments and then exactly \<open>ticks_count - 1\<close> solid rectangles in the colour \<open>bg\<close>, of
  thickness \<open>ticks_gap\<close>, the first at \<open>unit - ticks_gap\<close> from the start of the bar and
  each next one \<open>unit\<close> further along the secondary axis. \<open>len\<close> is the bar's secondary
  length as the layout rounds it to whole ticks.
\<close>

theorem C6_tick_gap_rectangles:
  assumes "0 < ticks_count d" and "0 < ticks_gap d" and "ticks_gap d \<le> unit"
    and "len = unit * ticks_count d - ticks_gap d"
  shows "gap_cmds_horizontal d unit pb_x pb_y len pb_height pb_offset bar
           = Some (map (\<lambda>k. Draw_rectangle
                          \<lparr>area_x = pb_x + (unit - ticks_gap d) + int k * unit,
                           area_y = pb_y + pb_offset, area_width = ticks_gap d,
                           area_height = pb_height\<rparr> 1 True (bg bar))
                     [0..<nat (ticks_count d - 1)])
         \<and> gap_cmds_vertical d unit pb_x pb_y pb_width len pb_offset bar
           = Some (map (\<lambda>k. Draw_rectangle
                          \<lparr>area_x = pb_x + pb_offset,
                           area_y = pb_y + (unit - ticks_gap d) + int k * unit,
                           area_width = pb_width, area_height = ticks_gap d\<rparr> 1 True (bg bar))
                     [0..<nat (ticks_count d - 1)])
         \<and> draw_bar_horizontal d unit pb_x pb_y len pb_height pb_offset bar
           = map_option
               (\<lambda>p. border_cmds d bar
                      \<lparr>area_x = pb_x - border_width d - border_padding d,
                       area_y = pb_y + pb_offset - border_width d - border_padding d,
                       area_width = len + 2 * (border_padding d + border_width d),
                       area_height = pb_height + 2 * (border_padding d + border_width d)\<rparr>
                    @ fill_cmds_horizontal pb_x pb_y len pb_height pb_offset bar p
                    @ the (gap_cmds_horizontal d unit pb_x pb_y len pb_height pb_offset bar))
               (bar_progress d len unit bar)
         \<and> draw_bar_vertical d unit pb_x pb_y pb_width len pb_offset bar
           = map_option
               (\<lambda>p. border_cmds d bar
                      \<lparr>area_x = pb_x + pb_offset - border_width d - border_padding d,
                       area_y = pb_y - border_width d - border_padding d,
                       area_width = pb_width + 2 * (border_padding d + border_width d),
                       area_height = len + 2 * (border_padding d + border_width d)\<rparr>
                    @ fill_cmds_vertical pb_x pb_y pb_width len pb_offset bar p
                    @ the (gap_cmds_vertical d unit pb_x pb_y pb_width len pb_offset bar))
               (bar_progress d len unit bar)"
proof -
  note h = gap_cmds_horizontal_ticks [OF assms, of pb_x pb_y pb_height pb_offset bar]
  note v = gap_cmds_vertical_ticks [OF assms, of pb_x pb_y pb_width pb_offset bar]
  have dh: "draw_bar_horizontal d unit pb_x pb_y len pb_height pb_offset bar
           = map_option
               (\<lambda>p. border_cmds d bar
                      \<lparr>area_x = pb_x - border_width d - border_padding d,
                       area_y = pb_y + pb_offset - border_width d - border_padding d,
                       area_width = len + 2 * (border_padding d + border_width d),
                       area_height = pb_height + 2 * (border_padding d + border_width d)\<rparr>
                    @ fill_cmds_horizontal pb_x pb_y len pb_height pb_offset bar p
                    @ the (gap_cmds_horizontal d unit pb_x pb_y len pb_height pb_offset bar))
               (bar_progress d len unit bar)"
    unfolding draw_bar_horizontal_def h by (simp split: option.splits)
  have dv: "draw_bar_vertical d unit pb_x pb_y pb_width len pb_offset bar
           = map_option
               (\<lambda>p. border_cmds d bar
                      \<lparr>area_x = pb_x + pb_offset - border_width d - border_padding d,
                       area_y = pb_y - border_width d - border_padding d,
                       area_width = pb_width + 2 * (border_padding d + border_width d),
                       area_height = len + 2 * (border_padding d + border_width d)\<rparr>
                    @ fill_cmds_vertical pb_x pb_y pb_width len pb_offset bar p
                    @ the (gap_cmds_vertical d unit pb_x pb_y pb_width len pb_offset bar))
               (bar_progress d len unit bar)"
    unfolding draw_bar_vertical_def v by (simp split: option.splits)
  show ?thesis using h v dh dv by (intro conjI)
qed

text \<open>
  Claim C6 says that exactly \<open>ticks_count\<close> gap rectangles are drawn after the two fill
  segments. The default widget with ten ticks and one bar at 50 of 100 has \<open>unit = 7\<close> and
  a bar of 69 pixels; the draw call makes twelve calls: the border, the two fill segments
  and nine gap rectangles.
\<close>

theorem C6_counterexample:
  "ticks_count demo_ticks = 10 \<and> ticks_gap demo_ticks = 1
   \<and> progressbar_draw align_left demo_ctx demo_ticks demo_area 0
     = Some (71, \<lparr>area_x = 0, area_y = 0, area_width = 71, area_height = 20\<rparr>,
         [Draw_rectangle \<lparr>area_x = 0, area_y = 1, area_width = 71, area_height = 16\<rparr>
            1 False ''border'',
          Draw_rectangle_gradient \<lparr>area_x = 1, area_y = 2, area_width = 34, area_height = 14\<rparr>
            1 True \<lparr>area_x = 1, area_y = 2, area_width = 69, area_height = 0\<rparr>
            ''fg'' None None,
          Draw_rectangle \<lparr>area_x = 35, area_y = 2, area_width = 35, area_height = 14\<rparr>
            1 True ''off'',
          Draw_rectangle \<lparr>area_x = 7, area_y = 2, area_width = 1, area_height = 14\<rparr>
            1 True ''bg'',
          Draw_rectangle \<lparr>area_x = 14, area_y = 2, area_width = 1, area_height = 14\<rparr>
            1 True ''bg'',
          Draw_rectangle \<lparr>area_x = 21, area_y = 2, area_width = 1, area_height = 14\<rparr>
            1 True ''bg'',
          Draw_rectangle \<lparr>area_x = 28, area_y = 2, area_width = 1, area_height = 14\<rparr>
            1 True ''bg'',
          Draw_rectangle \<lparr>area_x = 35, area_y = 2, area_width = 1, area_height = 14\<rparr>
            1 True ''bg'',
          Draw_rectangle \<lparr>area_x = 42, area_y = 2, area_width = 1, area_height = 14\<rparr>
            1 True ''bg'',
          Draw_rectangle \<lparr>area_x = 49, area_y = 2, area_width = 1, area_height = 14\<rparr>
            1 True ''bg'',
          Draw_rectangle \<lparr>area_x = 56, area_y = 2, area_width = 1, area_height = 14\<rparr>
            1 True ''bg'',
          Draw_rectangle \<lparr>area_x = 63, area_y = 2, area_width = 1, area_height = 14\<rparr>
            1 True ''bg''])"
  by (simp add: progressbar_draw_def demo_ticks_fields demo_ticks_layout demo_ticks_height
        demo_ticks_y demo_ctx_fields align_left_def draw_bar_horizontal_def demo_ticks_progress
        gap_cmds_horizontal_def ticks_on_def demo_ticks_positions border_cmds_def f32_one
        fill_cmds_horizontal_def mirror_def demo_bar_fields Let_def)

text \<open>The amended statement for the bar of that widget.\<close>

theorem C6_witness:
  "gap_cmds_horizontal demo_ticks 7 1 2 69 14 0 (demo_bar ''a'' 0 100 50 False)
     = Some (map (\<lambda>k. Draw_rectangle
                    \<lparr>area_x = 7 + int k * 7, area_y = 2, area_width = 1, area_height = 14\<rparr>
                    1 True ''bg'') [0..<9])"
  using C6_tick_gap_rectangles [of demo_ticks 7 69 1 2 14 0 "demo_bar ''a'' 0 100 50 False"]
  by (simp add: demo_ticks_fields demo_bar_fields)

end
